theory Spec2Isabelle
  imports Main "HOL-Library.Sublist"
begin

section \<open>Python helpers used by the isolinux bootloader configuration\<close>

text \<open>
  The module under verification is \<^verbatim>\<open>kiwi/bootloader/config/isolinux.py\<close>, class
  \<^verbatim>\<open>BootLoaderConfigIsoLinux\<close>. Python strings are modelled as \<^typ>\<open>string\<close>, Python's
  unbounded integers as \<^typ>\<open>int\<close>, \<^verbatim>\<open>None\<close>-able values as \<^typ>\<open>'a option\<close>.
\<close>

text \<open>Truthiness of an optional string: \<^verbatim>\<open>None\<close> and \<^verbatim>\<open>''\<close> are false.\<close>

fun truthy :: "string option \<Rightarrow> bool" where
  "truthy None = False"
| "truthy (Some s) = (s \<noteq> [])"

text \<open>\<^verbatim>\<open>a or b\<close> for an optional string \<^verbatim>\<open>a\<close> and a string \<^verbatim>\<open>b\<close>.\<close>

fun py_or :: "string option \<Rightarrow> string \<Rightarrow> string" where
  "py_or None d = d"
| "py_or (Some s) d = (if s \<noteq> [] then s else d)"

text \<open>Truthiness of an optional boolean: only \<^verbatim>\<open>True\<close> is true.\<close>

fun truthy_flag :: "bool option \<Rightarrow> bool" where
  "truthy_flag None = False"
| "truthy_flag (Some b) = b"

text \<open>\<^verbatim>\<open>sep.join(xs)\<close>\<close>

fun join :: "string \<Rightarrow> string list \<Rightarrow> string" where
  "join sep [] = []"
| "join sep [x] = x"
| "join sep (x # y # ys) = x @ sep @ join sep (y # ys)"

text \<open>\<^verbatim>\<open>str(n)\<close> for an integer: decimal digits, a leading minus sign when negative.\<close>

fun str_nat :: "nat \<Rightarrow> string" where
  "str_nat n =
     (if n < 10 then [''0123456789'' ! n]
      else str_nat (n div 10) @ [''0123456789'' ! (n mod 10)])"

declare str_nat.simps [simp del]

definition str_int :: "int \<Rightarrow> string" where
  "str_int i = (if i < 0 then ''-'' @ str_nat (nat (- i)) else str_nat (nat i))"

section \<open>Collaborators\<close>

text \<open>
  The class reads its build description through \<^verbatim>\<open>self.xml_state\<close>, static policy through
  \<^verbatim>\<open>Defaults\<close>, and shared option computation through methods inherited from
  \<^verbatim>\<open>BootLoaderConfigBase\<close>. None of them is defined in this module, and none is
  changed by it, so each is a record holding what the calls return.
\<close>

record xml_state =
  get_volid :: "string option"
  get_flags :: "string option"
  get_initrd_system :: "string option"
  get_hybridpersistent :: "bool option"
  get_hybridpersistent_filesystem :: "string option"
  get_bootloader_console :: "string option"
  get_mediacheck :: "bool option"
  is_xen_server :: bool

record defaults =
  get_install_volume_id :: string
  get_volume_id :: string
  get_default_live_iso_type :: string
  get_live_iso_persistent_boot_options :: "string option \<Rightarrow> string list"
  get_failsafe_kernel_options :: string

record base_config =
  get_gfxmode :: "string \<Rightarrow> string"
  get_boot_timeout_seconds :: int
  get_boot_cmdline :: string
  failsafe_boot_entry_requested :: bool
  get_install_image_boot_default :: "string \<Rightarrow> string"
  get_menu_entry_install_title :: string
  get_menu_entry_title :: "bool \<Rightarrow> string"
  get_boot_theme :: "string option"

section \<open>Errors\<close>

text \<open>
  The two exceptions this module raises itself, and \<open>PyError cls msg\<close> for an exception of
  Python class \<open>cls\<close> with message \<open>msg\<close> raised by a library call.
\<close>

datatype error =
    KiwiBootLoaderIsoLinuxPlatformError string
  | KiwiTemplateError string
  | PyError string string

section \<open>The configuration object\<close>

record bootloader_config =
  custom_args :: "(string \<times> string) list option"
  root_dir :: string
  arch :: string
  install_volid :: string
  volume_id :: string
  live_type :: string
  live_boot_options :: "string list"
  install_boot_options :: "string list"
  terminal :: "string option"
  gfxmode :: string
  timeout :: int
  cmdline :: string
  cmdline_failsafe :: string
  failsafe_boot :: bool
  mediacheck_boot :: "bool option"
  multiboot :: bool
  config :: "string option"
  config_message :: "string option"

text \<open>
  Lines 48--56 of \<^verbatim>\<open>post_init\<close>: the host architecture, as \<^verbatim>\<open>platform.machine()\<close>
  returns it, is mapped to the tag stored in \<^verbatim>\<open>self.arch\<close>, or the constructor raises.
\<close>

definition resolve_arch :: "string \<Rightarrow> error + string" where
  "resolve_arch machine =
     (if machine = ''x86_64'' then Inr machine
      else if machine = ''i686'' \<or> machine = ''i586'' then Inr ''ix86''
      else Inl (KiwiBootLoaderIsoLinuxPlatformError
                  (''host architecture '' @ machine @ '' not supported for isolinux setup'')))"

text \<open>
  \<^verbatim>\<open>post_init\<close>. \<open>machine\<close> is the value of \<^verbatim>\<open>platform.machine()\<close>; \<open>rd\<close> is
  \<^verbatim>\<open>self.root_dir\<close>, set by the base class constructor before \<^verbatim>\<open>post_init\<close> runs.
  The template provider \<^verbatim>\<open>self.isolinux\<close> is stateless and is passed to the render
  functions below instead of being stored.
\<close>

definition post_init ::
  "xml_state \<Rightarrow> defaults \<Rightarrow> base_config \<Rightarrow> string \<Rightarrow> string \<Rightarrow>
   (string \<times> string) list option \<Rightarrow> error + bootloader_config" where
  "post_init xs df bc machine rd cargs =
     (case resolve_arch machine of
        Inl e \<Rightarrow> Inl e
      | Inr a \<Rightarrow>
          (let ivolid = py_or (get_volid xs) (get_install_volume_id df);
               volid = py_or (get_volid xs) (get_volume_id df);
               ltype = py_or (get_flags xs) (get_default_live_iso_type df);
               live_opts = [''root=live:CDLABEL='' @ volid, ''rd.live.image''];
               inst_opts = [''loglevel=0''];
               inst_opts = (if get_initrd_system xs = Some ''dracut''
                            then inst_opts @ [''root=install:CDLABEL='' @ ivolid]
                            else inst_opts);
               live_opts = (if truthy_flag (get_hybridpersistent xs)
                            then live_opts @ get_live_iso_persistent_boot_options df
                                               (get_hybridpersistent_filesystem xs)
                            else live_opts);
               cmd = get_boot_cmdline bc
           in Inr \<lparr> custom_args = cargs,
                    root_dir = rd,
                    arch = a,
                    install_volid = ivolid,
                    volume_id = volid,
                    live_type = ltype,
                    live_boot_options = live_opts,
                    install_boot_options = inst_opts,
                    terminal = get_bootloader_console xs,
                    gfxmode = get_gfxmode bc ''isolinux'',
                    timeout = get_boot_timeout_seconds bc * 10,
                    cmdline = cmd,
                    cmdline_failsafe = join '' '' [cmd, get_failsafe_kernel_options df],
                    failsafe_boot = failsafe_boot_entry_requested bc,
                    mediacheck_boot = get_mediacheck xs,
                    multiboot = (if is_xen_server xs then True else False),
                    config = None,
                    config_message = None \<rparr>))"

section \<open>Templates\<close>

text \<open>
  The template bodies come from \<^verbatim>\<open>BootLoaderTemplateIsoLinux\<close>, which is not part of this
  module; each getter returns a \<^verbatim>\<open>string.Template\<close>. A template is modelled by what
  the library's pattern splits its text into: literal text (an escaped \<^verbatim>\<open>$$\<close> is the
  literal \<^verbatim>\<open>$\<close>), a named or braced placeholder, or an ill-formed placeholder at a
  given line and column.
\<close>

datatype segment = Literal string | Placeholder string | Invalid nat nat

type_synonym template = "segment list"

text \<open>Values of the parameter dictionary: strings, and the integer boot timeout.\<close>

datatype pval = PStr string | PInt int

fun py_str :: "pval \<Rightarrow> string" where
  "py_str (PStr s) = s"
| "py_str (PInt i) = str_int i"

text \<open>
  \<^verbatim>\<open>Template.substitute(mapping)\<close>: segments are converted from left to right; a
  placeholder missing from the mapping raises \<^verbatim>\<open>KeyError(name)\<close>, an ill-formed one
  raises \<^verbatim>\<open>ValueError\<close>. The message of a \<^verbatim>\<open>KeyError\<close> is the \<^verbatim>\<open>repr\<close> of the key.
\<close>

fun substitute :: "template \<Rightarrow> (string \<rightharpoonup> pval) \<Rightarrow> error + string" where
  "substitute [] m = Inr []"
| "substitute (Literal s # t) m =
     (case substitute t m of Inl e \<Rightarrow> Inl e | Inr r \<Rightarrow> Inr (s @ r))"
| "substitute (Placeholder k # t) m =
     (case m k of
        None \<Rightarrow> Inl (PyError ''KeyError'' ([CHR 0x27] @ k @ [CHR 0x27]))
      | Some v \<Rightarrow>
          (case substitute t m of Inl e \<Rightarrow> Inl e | Inr r \<Rightarrow> Inr (py_str v @ r)))"
| "substitute (Invalid l c # t) m =
     Inl (PyError ''ValueError''
            (''Invalid placeholder in string: line '' @ str_nat l @ '', col '' @ str_nat c))"

record isolinux_template =
  get_install_template :: "bool \<Rightarrow> bool \<Rightarrow> string option \<Rightarrow> template"
  get_multiboot_install_template :: "bool \<Rightarrow> bool \<Rightarrow> string option \<Rightarrow> template"
  get_install_message_template :: template
  get_template :: "bool \<Rightarrow> bool \<Rightarrow> string option \<Rightarrow> bool option \<Rightarrow> template"
  get_multiboot_template :: "bool \<Rightarrow> bool \<Rightarrow> string option \<Rightarrow> bool option \<Rightarrow> template"
  get_message_template :: template

text \<open>
  \<^verbatim>\<open>KiwiTemplateError('%s: %s' % (type(e).__name__, format(e)))\<close> for a caught
  exception \<open>e\<close>.
\<close>

fun template_error :: "error \<Rightarrow> error" where
  "template_error (PyError cls msg) = KiwiTemplateError (cls @ '': '' @ msg)"
| "template_error (KiwiTemplateError msg) =
     KiwiTemplateError (''KiwiTemplateError: '' @ msg)"
| "template_error (KiwiBootLoaderIsoLinuxPlatformError msg) =
     KiwiTemplateError (''KiwiBootLoaderIsoLinuxPlatformError: '' @ msg)"

section \<open>The filesystem\<close>

text \<open>
  Regular files by path with their content, and the set of directories, stored without
  trailing slashes. Paths are compared as strings.
\<close>

record filesys =
  files :: "string \<rightharpoonup> string"
  dirs :: "string set"

text \<open>
  A method that mutates its object or the filesystem and may raise returns either the new
  state, or the exception together with the state at the moment it was raised.
\<close>

datatype 's result = Returned 's | Raised error 's

definition rstrip_slash :: "string \<Rightarrow> string" where
  "rstrip_slash p = rev (dropWhile (\<lambda>c. c = CHR ''/'') (rev p))"

text \<open>\<^verbatim>\<open>os.path.basename\<close>, \<^verbatim>\<open>os.path.dirname\<close> and two-argument \<^verbatim>\<open>os.path.join\<close> (POSIX).\<close>

definition basename :: "string \<Rightarrow> string" where
  "basename p = rev (takeWhile (\<lambda>c. c \<noteq> CHR ''/'') (rev p))"

definition dirname :: "string \<Rightarrow> string" where
  "dirname p =
     (let head = rev (dropWhile (\<lambda>c. c \<noteq> CHR ''/'') (rev p))
      in if head \<noteq> [] \<and> head \<noteq> replicate (length head) (CHR ''/'')
         then rstrip_slash head else head)"

definition path_join :: "string \<Rightarrow> string \<Rightarrow> string" where
  "path_join a b =
     (if b \<noteq> [] \<and> hd b = CHR ''/'' then b
      else if a = [] \<or> last a = CHR ''/'' then a @ b
      else a @ ''/'' @ b)"

definition isdir :: "filesys \<Rightarrow> string \<Rightarrow> bool" where
  "isdir fs p = (rstrip_slash p \<in> dirs fs)"

definition isfile :: "filesys \<Rightarrow> string \<Rightarrow> bool" where
  "isfile fs p = (files fs p \<noteq> None)"

text \<open>\<^verbatim>\<open>os.path.exists\<close>\<close>

definition path_exists :: "filesys \<Rightarrow> string \<Rightarrow> bool" where
  "path_exists fs p = (isfile fs p \<or> isdir fs p)"

text \<open>
  \<^verbatim>\<open>with open(p, 'w') as f: f.write(c)\<close>: the file is created or truncated and holds
  \<open>c\<close>; opening fails when \<open>p\<close> is a directory or the directory of \<open>p\<close> does not exist.
\<close>

definition open_write :: "string \<Rightarrow> string \<Rightarrow> filesys \<Rightarrow> filesys result" where
  "open_write p c fs =
     (if isdir fs p then
        Raised (PyError ''IsADirectoryError'' (''[Errno 21] Is a directory: '' @ [CHR 0x27] @ p @ [CHR 0x27])) fs
      else if \<not> isdir fs (dirname p) then
        Raised (PyError ''FileNotFoundError''
                  (''[Errno 2] No such file or directory: '' @ [CHR 0x27] @ p @ [CHR 0x27])) fs
      else Returned (fs\<lparr>files := (files fs)(p \<mapsto> c)\<rparr>))"

text \<open>
  \<^verbatim>\<open>shutil.copy(src, dst)\<close>: when \<open>dst\<close> is a directory the target is the file of the
  same base name inside it; the source must be a regular file other than the target.
\<close>

definition shutil_copy :: "string \<Rightarrow> string \<Rightarrow> filesys \<Rightarrow> filesys result" where
  "shutil_copy src dst fs =
     (let target = (if isdir fs dst then path_join dst (basename src) else dst)
      in case files fs src of
           None \<Rightarrow>
             (if isdir fs src
              then Raised (PyError ''IsADirectoryError''
                             (''[Errno 21] Is a directory: '' @ [CHR 0x27] @ src @ [CHR 0x27])) fs
              else Raised (PyError ''FileNotFoundError''
                             (''[Errno 2] No such file or directory: '' @ [CHR 0x27] @ src @ [CHR 0x27])) fs)
         | Some c \<Rightarrow>
             (if src = target
              then Raised (PyError ''SameFileError''
                             ([CHR 0x27] @ src @ [CHR 0x27] @ '' and '' @ [CHR 0x27] @ target @ [CHR 0x27]
                              @ '' are the same file'')) fs
              else open_write target c fs))"

text \<open>
  Modelled from the spec: \<^verbatim>\<open>Path.create\<close> and \<^verbatim>\<open>Path.wipe\<close> of \<^verbatim>\<open>kiwi.path\<close>, which the
  spec gives as "create-directory (idempotent)" and "recursively-wipe-directory".
\<close>

definition Path_create :: "string \<Rightarrow> filesys \<Rightarrow> filesys" where
  "Path_create d fs = fs\<lparr>dirs := insert (rstrip_slash d) (dirs fs)\<rparr>"

definition inside :: "string \<Rightarrow> string \<Rightarrow> bool" where
  "inside d p = prefix (rstrip_slash d @ ''/'') p"

definition Path_wipe :: "string \<Rightarrow> filesys \<Rightarrow> filesys" where
  "Path_wipe d fs =
     fs\<lparr>files := (\<lambda>p. if inside d p then None else files fs p),
        dirs := {p \<in> dirs fs. \<not> (p = rstrip_slash d \<or> inside d p)}\<rparr>"

text \<open>
  External processes and the directory synchronisation are not part of this module.
  \<open>run_process cmd fs\<close> is what running the command line \<open>cmd\<close> does: the filesystem it
  leaves, and the error text when it exits with a failure. \<open>sync_data src dst options\<close> is
  \<^verbatim>\<open>DataSync(src, dst).sync_data(options)\<close>.
\<close>

record commands =
  run_process :: "string list \<Rightarrow> filesys \<Rightarrow> string option \<times> filesys"
  sync_data :: "string \<Rightarrow> string \<Rightarrow> string list \<Rightarrow> filesys \<Rightarrow> filesys result"

text \<open>
  \<^verbatim>\<open>Command.run(command, raise_on_error)\<close>: a failing command raises
  \<^verbatim>\<open>KiwiCommandError\<close> unless \<^verbatim>\<open>raise_on_error\<close> is false.
\<close>

definition Command_run ::
  "commands \<Rightarrow> string list \<Rightarrow> bool \<Rightarrow> filesys \<Rightarrow> filesys result" where
  "Command_run cs cmd raise_on_error fs =
     (case run_process cs cmd fs of
        (None, fs') \<Rightarrow> Returned fs'
      | (Some msg, fs') \<Rightarrow>
          (if raise_on_error then Raised (PyError ''KiwiCommandError'' msg) fs'
           else Returned fs'))"

text \<open>The state a call leaves behind, whether it returned or raised.\<close>

fun final :: "'s result \<Rightarrow> 's" where
  "final (Returned s) = s"
| "final (Raised e s) = s"

fun and_then :: "'s result \<Rightarrow> ('s \<Rightarrow> 's result) \<Rightarrow> 's result" where
  "and_then (Returned s) f = f s"
| "and_then (Raised e s) f = Raised e s"

section \<open>Rendering and writing the configuration\<close>

definition get_iso_boot_path :: "bootloader_config \<Rightarrow> string" where
  "get_iso_boot_path st = root_dir st @ ''/boot/'' @ arch st @ ''/loader''"

definition have_theme :: "bootloader_config \<Rightarrow> filesys \<Rightarrow> bool" where
  "have_theme st fs =
     (if path_exists fs (get_iso_boot_path st @ ''/bootlogo'') then True else False)"

text \<open>
  \<^verbatim>\<open>write\<close> (named \<open>write_config\<close> here, \<open>write\<close> being an Isar keyword). The \<^verbatim>\<open>log.info\<close> calls
  have no effect on the state modelled here.
\<close>

definition write_config :: "bootloader_config \<Rightarrow> filesys \<Rightarrow> filesys result" where
  "write_config st fs =
     (let config_dir = get_iso_boot_path st;
          config_file = config_dir @ ''/isolinux.cfg'';
          config_file_message = config_dir @ ''/isolinux.msg''
      in and_then
           (if truthy (config st)
            then open_write config_file (case config st of Some c \<Rightarrow> c | None \<Rightarrow> [])
                   (Path_create config_dir fs)
            else Returned fs)
           (\<lambda>fs. if truthy (config_message st)
                 then open_write config_file_message
                        (case config_message st of Some c \<Rightarrow> c | None \<Rightarrow> []) fs
                 else Returned fs))"

text \<open>The parameter dictionary built by \<^verbatim>\<open>setup_install_image_config\<close> (lines 137--150).\<close>

definition install_parameters ::
  "base_config \<Rightarrow> bootloader_config \<Rightarrow> string \<Rightarrow> string \<Rightarrow> (string \<rightharpoonup> pval)" where
  "install_parameters bc st kernel_name initrd_name =
     [''default_boot'' \<mapsto> PStr (get_install_image_boot_default bc ''isolinux''),
      ''kernel_file'' \<mapsto> PStr kernel_name,
      ''initrd_file'' \<mapsto> PStr initrd_name,
      ''boot_options'' \<mapsto> PStr (join '' '' ([cmdline st] @ install_boot_options st)),
      ''failsafe_boot_options'' \<mapsto>
         PStr (join '' '' ([cmdline_failsafe st] @ install_boot_options st)),
      ''gfxmode'' \<mapsto> PStr (gfxmode st),
      ''boot_timeout'' \<mapsto> PInt (timeout st),
      ''title'' \<mapsto> PStr (get_menu_entry_install_title bc)]"

text \<open>The parameter dictionary built by \<^verbatim>\<open>setup_live_image_config\<close> (lines 187--200).\<close>

definition live_parameters ::
  "base_config \<Rightarrow> bootloader_config \<Rightarrow> string \<Rightarrow> string \<Rightarrow> (string \<rightharpoonup> pval)" where
  "live_parameters bc st kernel_name initrd_name =
     [''default_boot'' \<mapsto> PStr (get_menu_entry_title bc True),
      ''kernel_file'' \<mapsto> PStr kernel_name,
      ''initrd_file'' \<mapsto> PStr initrd_name,
      ''boot_options'' \<mapsto> PStr (join '' '' ([cmdline st] @ live_boot_options st)),
      ''failsafe_boot_options'' \<mapsto>
         PStr (join '' '' ([cmdline_failsafe st] @ live_boot_options st)),
      ''gfxmode'' \<mapsto> PStr (gfxmode st),
      ''boot_timeout'' \<mapsto> PInt (timeout st),
      ''title'' \<mapsto> PStr (get_menu_entry_title bc True)]"

text \<open>
  The \<^verbatim>\<open>try\<close> block shared by both entry points (lines 162--169 and 214--221): the
  configuration template is substituted and stored, then the message template is
  fetched, substituted and stored; the first exception leaves the block.
\<close>

definition render ::
  "template \<Rightarrow> template \<Rightarrow> (string \<rightharpoonup> pval) \<Rightarrow> bootloader_config \<Rightarrow>
   bootloader_config result" where
  "render tmpl msg_tmpl parameters st =
     (case substitute tmpl parameters of
        Inl e \<Rightarrow> Raised (template_error e) st
      | Inr c \<Rightarrow>
          (let st1 = st\<lparr>config := Some c\<rparr>
           in case substitute msg_tmpl parameters of
                Inl e \<Rightarrow> Raised (template_error e) st1
              | Inr m \<Rightarrow> Returned (st1\<lparr>config_message := Some m\<rparr>)))"

text \<open>
  \<^verbatim>\<open>setup_install_image_config(mbrid, hypervisor='xen.gz', kernel='linux', initrd='initrd')\<close>.
  The filesystem is read by \<^verbatim>\<open>_have_theme\<close>; \<^verbatim>\<open>mbrid\<close> is a parameter the body never reads.
\<close>

definition setup_install_image_config ::
  "base_config \<Rightarrow> isolinux_template \<Rightarrow> filesys \<Rightarrow> bootloader_config \<Rightarrow>
   string \<Rightarrow> string \<Rightarrow> string \<Rightarrow> string \<Rightarrow> bootloader_config result" where
  "setup_install_image_config bc tp fs st mbrid hypervisor kernel_name initrd_name =
     (let parameters = install_parameters bc st kernel_name initrd_name
      in if multiboot st
         then render (get_multiboot_install_template tp
                        (failsafe_boot st) (have_theme st fs) (terminal st))
                (get_install_message_template tp)
                (parameters(''hypervisor'' \<mapsto> PStr hypervisor)) st
         else render (get_install_template tp
                        (failsafe_boot st) (have_theme st fs) (terminal st))
                (get_install_message_template tp) parameters st)"

text \<open>
  \<^verbatim>\<open>setup_live_image_config(mbrid, hypervisor='xen.gz', kernel='linux', initrd='initrd')\<close>
\<close>

definition setup_live_image_config ::
  "base_config \<Rightarrow> isolinux_template \<Rightarrow> filesys \<Rightarrow> bootloader_config \<Rightarrow>
   string \<Rightarrow> string \<Rightarrow> string \<Rightarrow> string \<Rightarrow> bootloader_config result" where
  "setup_live_image_config bc tp fs st mbrid hypervisor kernel_name initrd_name =
     (let parameters = live_parameters bc st kernel_name initrd_name
      in if multiboot st
         then render (get_multiboot_template tp
                        (failsafe_boot st) (have_theme st fs) (terminal st) (mediacheck_boot st))
                (get_message_template tp)
                (parameters(''hypervisor'' \<mapsto> PStr hypervisor)) st
         else render (get_template tp
                        (failsafe_boot st) (have_theme st fs) (terminal st) (mediacheck_boot st))
                (get_message_template tp) parameters st)"

section \<open>Staging the loader files\<close>

definition syslinux_file_names :: "string list" where
  "syslinux_file_names =
     [''isolinux.bin'', ''ldlinux.c32'', ''libcom32.c32'', ''libutil.c32'', ''gfxboot.c32'',
      ''gfxboot.com'', ''menu.c32'', ''chain.c32'', ''mboot.c32'']"

definition syslinux_dirs :: "string list" where
  "syslinux_dirs = [''/usr/share/syslinux/'', ''/usr/lib/syslinux/modules/bios/'']"

text \<open>The inner loop of lines 266--271, over the candidate directories in order.\<close>

fun copy_from_dirs ::
  "string \<Rightarrow> string \<Rightarrow> string \<Rightarrow> string list \<Rightarrow> filesys \<Rightarrow> filesys result" where
  "copy_from_dirs lookup_path loader_data name [] fs = Returned fs"
| "copy_from_dirs lookup_path loader_data name (d # ds) fs =
     (let syslinux_file = concat [lookup_path, d, name]
      in if path_exists fs syslinux_file
         then (case shutil_copy syslinux_file loader_data fs of
                 Raised e fs' \<Rightarrow> Raised e fs'
               | Returned fs' \<Rightarrow> copy_from_dirs lookup_path loader_data name ds fs')
         else copy_from_dirs lookup_path loader_data name ds fs)"

text \<open>The outer loop of lines 265--271, over the file names in order.\<close>

fun copy_syslinux_files ::
  "string \<Rightarrow> string \<Rightarrow> string list \<Rightarrow> string list \<Rightarrow> filesys \<Rightarrow> filesys result" where
  "copy_syslinux_files lookup_path loader_data [] ds fs = Returned fs"
| "copy_syslinux_files lookup_path loader_data (name # names) ds fs =
     (case copy_from_dirs lookup_path loader_data name ds fs of
        Raised e fs' \<Rightarrow> Raised e fs'
      | Returned fs' \<Rightarrow> copy_syslinux_files lookup_path loader_data names ds fs')"

text \<open>
  Lines 244--271 of \<^verbatim>\<open>_copy_loader_data_to_boot_directory\<close>: the staging directory is
  wiped and created again, then the loader files are copied into it.
\<close>

definition stage_syslinux_files :: "string \<Rightarrow> filesys \<Rightarrow> filesys result" where
  "stage_syslinux_files lookup_path fs =
     (let loader_data = lookup_path @ ''/image/loader/''
      in copy_syslinux_files lookup_path loader_data syslinux_file_names syslinux_dirs
           (Path_create loader_data (Path_wipe loader_data fs)))"

text \<open>Lines 280--303: the theme files, when a boot theme is configured.\<close>

definition copy_theme_data ::
  "base_config \<Rightarrow> commands \<Rightarrow> string \<Rightarrow> string \<Rightarrow> filesys \<Rightarrow> filesys result" where
  "copy_theme_data bc cs lookup_path loader_data fs =
     (case get_boot_theme bc of
        None \<Rightarrow> Returned fs
      | Some theme \<Rightarrow>
          (if theme = [] then Returned fs
           else
             (let theme_path = concat [lookup_path, ''/etc/bootsplash/themes/'', theme]
              in and_then
                   (if path_exists fs (theme_path @ ''/cdrom/gfxboot.cfg'')
                    then and_then
                           (Command_run cs
                              [''bash'', ''-c'',
                               join '' '' [''cp'', theme_path @ ''/cdrom/*'', loader_data]]
                              True fs)
                           (Command_run cs
                              [''gfxboot'',
                               ''--config-file'', loader_data @ ''/gfxboot.cfg'',
                               ''--change-config'', ''install::autodown=0'']
                              True)
                    else Returned fs)
                   (\<lambda>fs. if path_exists fs (theme_path @ ''/bootloader/message'')
                         then Command_run cs
                                [''cp'', theme_path @ ''/bootloader/message'', loader_data]
                                True fs
                         else Returned fs))))"

text \<open>\<^verbatim>\<open>_copy_loader_data_to_boot_directory(lookup_path)\<close>\<close>

definition copy_loader_data_to_boot_directory ::
  "base_config \<Rightarrow> commands \<Rightarrow> bootloader_config \<Rightarrow> string option \<Rightarrow> filesys \<Rightarrow>
   filesys result" where
  "copy_loader_data_to_boot_directory bc cs st lookup_arg fs =
     (let lookup_path = (if \<not> truthy lookup_arg then root_dir st
                         else (case lookup_arg of Some l \<Rightarrow> l | None \<Rightarrow> root_dir st));
          loader_data = lookup_path @ ''/image/loader/''
      in and_then (stage_syslinux_files lookup_path fs)
        (\<lambda>fs. and_then
           (Command_run cs
              [''bash'', ''-c'',
               join '' '' [''cp'', lookup_path @ ''/boot/memtest*'', loader_data @ ''/memtest'']]
              False fs)
        (\<lambda>fs. and_then (copy_theme_data bc cs lookup_path loader_data fs)
        (\<lambda>fs. sync_data cs loader_data (get_iso_boot_path st) [''-z'', ''-a'']
                (Path_create (get_iso_boot_path st) fs)))))"

text \<open>\<^verbatim>\<open>setup_install_boot_images(mbrid, lookup_path=None)\<close>\<close>

definition setup_install_boot_images ::
  "base_config \<Rightarrow> commands \<Rightarrow> bootloader_config \<Rightarrow> string \<Rightarrow> string option \<Rightarrow> filesys \<Rightarrow>
   filesys result" where
  "setup_install_boot_images bc cs st mbrid lookup_arg fs =
     copy_loader_data_to_boot_directory bc cs st lookup_arg fs"

text \<open>\<^verbatim>\<open>setup_live_boot_images(mbrid, lookup_path=None)\<close>\<close>

definition setup_live_boot_images ::
  "base_config \<Rightarrow> commands \<Rightarrow> bootloader_config \<Rightarrow> string \<Rightarrow> string option \<Rightarrow> filesys \<Rightarrow>
   filesys result" where
  "setup_live_boot_images bc cs st mbrid lookup_arg fs =
     setup_install_boot_images bc cs st mbrid lookup_arg fs"

section \<open>The template and parameters of a render call\<close>

text \<open>
  Both entry points branch once on \<^verbatim>\<open>self.multiboot\<close> (lines 151--161 and 201--213),
  choosing the configuration template and adding the \<^verbatim>\<open>hypervisor\<close> parameter. The two
  halves of that branch are named here so that properties can refer to the template and
  the dictionary a call substitutes.
\<close>

definition install_template_choice ::
  "isolinux_template \<Rightarrow> filesys \<Rightarrow> bootloader_config \<Rightarrow> template" where
  "install_template_choice tp fs st =
     (if multiboot st
      then get_multiboot_install_template tp (failsafe_boot st) (have_theme st fs) (terminal st)
      else get_install_template tp (failsafe_boot st) (have_theme st fs) (terminal st))"

definition install_call_parameters ::
  "base_config \<Rightarrow> bootloader_config \<Rightarrow> string \<Rightarrow> string \<Rightarrow> string \<Rightarrow>
   (string \<rightharpoonup> pval)" where
  "install_call_parameters bc st hypervisor kernel_name initrd_name =
     (if multiboot st
      then (install_parameters bc st kernel_name initrd_name)(''hypervisor'' \<mapsto> PStr hypervisor)
      else install_parameters bc st kernel_name initrd_name)"

definition live_template_choice ::
  "isolinux_template \<Rightarrow> filesys \<Rightarrow> bootloader_config \<Rightarrow> template" where
  "live_template_choice tp fs st =
     (if multiboot st
      then get_multiboot_template tp (failsafe_boot st) (have_theme st fs) (terminal st)
             (mediacheck_boot st)
      else get_template tp (failsafe_boot st) (have_theme st fs) (terminal st)
             (mediacheck_boot st))"

definition live_call_parameters ::
  "base_config \<Rightarrow> bootloader_config \<Rightarrow> string \<Rightarrow> string \<Rightarrow> string \<Rightarrow>
   (string \<rightharpoonup> pval)" where
  "live_call_parameters bc st hypervisor kernel_name initrd_name =
     (if multiboot st
      then (live_parameters bc st kernel_name initrd_name)(''hypervisor'' \<mapsto> PStr hypervisor)
      else live_parameters bc st kernel_name initrd_name)"

section \<open>Sample data\<close>

text \<open>
  A build description, templates and a filesystem on which the theorems below are
  exercised: no volume id configured, \<^verbatim>\<open>dracut\<close> as initrd system, a boot timeout of ten
  seconds, and an install message template that refers to \<^verbatim>\<open>hypervisor\<close>, a placeholder
  only multiboot calls provide.
\<close>

definition sample_xml :: xml_state where
  "sample_xml =
     \<lparr> get_volid = None, get_flags = None, get_initrd_system = Some ''dracut'',
       get_hybridpersistent = None, get_hybridpersistent_filesystem = None,
       get_bootloader_console = None, get_mediacheck = None, is_xen_server = False \<rparr>"

definition sample_defaults :: defaults where
  "sample_defaults =
     \<lparr> get_install_volume_id = ''INSTALL1'', get_volume_id = ''LIVE123'',
       get_default_live_iso_type = ''overlay'',
       get_live_iso_persistent_boot_options =
         (\<lambda>f. case f of None \<Rightarrow> [''rd.live.overlay.persistent'']
                | Some t \<Rightarrow> [''rd.live.overlay.persistent'', ''rd.live.overlay.cowfs='' @ t]),
       get_failsafe_kernel_options = ''nomodeset'' \<rparr>"

definition sample_base :: base_config where
  "sample_base =
     \<lparr> get_gfxmode = (\<lambda>t. ''800x600''), get_boot_timeout_seconds = 10,
       get_boot_cmdline = ''splash'', failsafe_boot_entry_requested = True,
       get_install_image_boot_default = (\<lambda>l. ''Boot_from_Hard_Disk''),
       get_menu_entry_install_title = ''Install'',
       get_menu_entry_title = (\<lambda>plain. ''Live''),
       get_boot_theme = None \<rparr>"

definition sample_templates :: isolinux_template where
  "sample_templates =
     \<lparr> get_install_template = (\<lambda>f t c. [Literal ''default '', Placeholder ''default_boot'']),
       get_multiboot_install_template =
         (\<lambda>f t c. [Literal ''kernel mboot.c32 '', Placeholder ''hypervisor'']),
       get_install_message_template = [Literal ''Booting '', Placeholder ''hypervisor''],
       get_template = (\<lambda>f t c m. [Literal ''timeout '', Placeholder ''boot_timeout'']),
       get_multiboot_template =
         (\<lambda>f t c m. [Literal ''kernel mboot.c32 '', Placeholder ''hypervisor'']),
       get_message_template = [Literal ''Welcome to '', Placeholder ''title''] \<rparr>"

definition sample_config :: bootloader_config where
  "sample_config =
     \<lparr> custom_args = None, root_dir = ''/build/root'', arch = ''x86_64'',
       install_volid = ''INSTALL1'', volume_id = ''LIVE123'', live_type = ''overlay'',
       live_boot_options = [''root=live:CDLABEL=LIVE123'', ''rd.live.image''],
       install_boot_options = [''loglevel=0'', ''root=install:CDLABEL=INSTALL1''],
       terminal = None, gfxmode = ''800x600'', timeout = 100, cmdline = ''splash'',
       cmdline_failsafe = ''splash nomodeset'', failsafe_boot = True,
       mediacheck_boot = None, multiboot = False, config = None, config_message = None \<rparr>"

definition rendered_config :: bootloader_config where
  "rendered_config =
     sample_config\<lparr>config := Some ''timeout 100'', config_message := Some ''Welcome to Live''\<rparr>"

definition sample_fs :: filesys where
  "sample_fs =
     \<lparr> files = [''/build/root/usr/share/syslinux/isolinux.bin'' \<mapsto> ''syslinux copy'',
                ''/build/root/usr/lib/syslinux/modules/bios/isolinux.bin'' \<mapsto> ''bios copy'',
                ''/build/root/usr/share/syslinux/menu.c32'' \<mapsto> ''menu'',
                ''/build/root/image/loader/stale'' \<mapsto> ''left over''],
       dirs = {''/build/root'', ''/build/root/image/loader''} \<rparr>"

definition sample_commands :: commands where
  "sample_commands =
     \<lparr> run_process = (\<lambda>cmd fs. (None, fs)),
       sync_data = (\<lambda>src dst options fs. Returned fs) \<rparr>"

definition empty_text_config :: bootloader_config where
  "empty_text_config = sample_config\<lparr>config := Some [], config_message := Some []\<rparr>"

section \<open>Construction\<close>

lemma post_init_fields:
  assumes "post_init xs df bc machine rd ca = Inr st"
  shows "install_volid st = py_or (get_volid xs) (get_install_volume_id df)"
    and "volume_id st = py_or (get_volid xs) (get_volume_id df)"
    and "install_boot_options st =
           [''loglevel=0''] @
           (if get_initrd_system xs = Some ''dracut''
            then [''root=install:CDLABEL='' @ install_volid st] else [])"
    and "live_boot_options st =
           [''root=live:CDLABEL='' @ volume_id st, ''rd.live.image''] @
           (if truthy_flag (get_hybridpersistent xs)
            then get_live_iso_persistent_boot_options df (get_hybridpersistent_filesystem xs)
            else [])"
    and "timeout st = get_boot_timeout_seconds bc * 10"
    and "cmdline st = get_boot_cmdline bc"
    and "cmdline_failsafe st = get_boot_cmdline bc @ '' '' @ get_failsafe_kernel_options df"
    and "multiboot st = is_xen_server xs"
    and "config st = None" and "config_message st = None"
  using assms
  by (auto simp: post_init_def Let_def split: sum.splits if_splits)

text \<open>
  Both volume ids are read from the one configured \<^verbatim>\<open>volid\<close>: when it is set, they are
  equal, and they differ only through the two defaults.
\<close>

lemma configured_volid_sets_both:
  assumes "post_init xs df bc machine rd ca = Inr st" and "get_volid xs = Some v" and "v \<noteq> []"
  shows "install_volid st = v \<and> volume_id st = v"
  using post_init_fields(1,2) [OF assms(1)] assms(2,3) by simp

lemma sample_config_constructed:
  "post_init sample_xml sample_defaults sample_base ''x86_64'' ''/build/root'' None =
     Inr sample_config"
  by (simp add: post_init_def resolve_arch_def sample_xml_def sample_defaults_def
        sample_base_def sample_config_def Let_def)

lemma str_nat_times_ten: "0 < n \<Longrightarrow> str_nat (n * 10) = str_nat n @ ''0''"
  by (subst str_nat.simps) simp

lemma str_int_times_ten:
  "0 \<le> s \<Longrightarrow> str_int (s * 10) = (if s = 0 then ''0'' else str_int s @ ''0'')"
proof (cases "s = 0")
  case True
  then show ?thesis by (simp add: str_int_def str_nat.simps)
next
  case False
  assume "0 \<le> s"
  with False have "0 < nat s" by simp
  from str_nat_times_ten [OF this] have "str_nat (nat (s * 10)) = str_nat (nat s) @ ''0''"
    by (simp add: nat_mult_distrib \<open>0 \<le> s\<close>)
  then show ?thesis using False \<open>0 \<le> s\<close> by (simp add: str_int_def)
qed

text \<open>
  C4. For every host architecture string, construction resolves \<^verbatim>\<open>x86_64\<close> to the tag
  \<^verbatim>\<open>x86_64\<close>, \<^verbatim>\<open>i686\<close> and \<^verbatim>\<open>i586\<close> to \<^verbatim>\<open>ix86\<close>, and for every other string raises the
  platform error whose message names the architecture; there is no other outcome.
\<close>

theorem post_init_arch:
  "(machine = ''x86_64'' \<longrightarrow>
      (\<exists>st. post_init xs df bc machine rd ca = Inr st \<and> arch st = ''x86_64'')) \<and>
   (machine = ''i686'' \<or> machine = ''i586'' \<longrightarrow>
      (\<exists>st. post_init xs df bc machine rd ca = Inr st \<and> arch st = ''ix86'')) \<and>
   (machine \<noteq> ''x86_64'' \<and> machine \<noteq> ''i686'' \<and> machine \<noteq> ''i586'' \<longrightarrow>
      post_init xs df bc machine rd ca =
        Inl (KiwiBootLoaderIsoLinuxPlatformError
               (''host architecture '' @ machine @ '' not supported for isolinux setup'')))"
  by (simp add: post_init_def resolve_arch_def Let_def)

theorem post_init_arch_witness:
  "(\<exists>st. post_init sample_xml sample_defaults sample_base ''i586'' ''/build/root'' None = Inr st
        \<and> arch st = ''ix86'') \<and>
   post_init sample_xml sample_defaults sample_base ''aarch64'' ''/build/root'' None =
     Inl (KiwiBootLoaderIsoLinuxPlatformError
            ''host architecture aarch64 not supported for isolinux setup'')"
  using post_init_arch
          [of "''i586''" sample_xml sample_defaults sample_base "''/build/root''" None]
        post_init_arch
          [of "''aarch64''" sample_xml sample_defaults sample_base "''/build/root''" None]
  by simp

text \<open>
  C5. Whenever construction succeeds, \<^verbatim>\<open>install_boot_options\<close> contains \<^verbatim>\<open>loglevel=0\<close>, and
  it contains \<^verbatim>\<open>root=install:CDLABEL=\<close> followed by the install volume id if and only if
  the configured initrd system is \<^verbatim>\<open>dracut\<close>.
\<close>

theorem install_boot_options_dracut:
  assumes "post_init xs df bc machine rd ca = Inr st"
  shows "''loglevel=0'' \<in> set (install_boot_options st) \<and>
         ((''root=install:CDLABEL='' @ install_volid st) \<in> set (install_boot_options st)
            \<longleftrightarrow> get_initrd_system xs = Some ''dracut'')"
  using post_init_fields(3) [OF assms] by simp

theorem install_boot_options_dracut_witness:
  "''loglevel=0'' \<in> set (install_boot_options sample_config) \<and>
   ''root=install:CDLABEL=INSTALL1'' \<in> set (install_boot_options sample_config) \<and>
   get_initrd_system sample_xml = Some ''dracut''"
  using install_boot_options_dracut [OF sample_config_constructed]
  by (simp add: sample_config_def sample_xml_def)

text \<open>
  C7. Whenever construction succeeds, \<^verbatim>\<open>live_boot_options\<close> contains
  \<^verbatim>\<open>root=live:CDLABEL=\<close> followed by the volume id, and \<^verbatim>\<open>rd.live.image\<close>; the persistent
  boot options for the configured filesystem follow these two exactly when the
  hybrid-persistent flag is set.
\<close>

theorem live_boot_options_persistent:
  assumes "post_init xs df bc machine rd ca = Inr st"
  shows "(''root=live:CDLABEL='' @ volume_id st) \<in> set (live_boot_options st) \<and>
         ''rd.live.image'' \<in> set (live_boot_options st) \<and>
         live_boot_options st =
           [''root=live:CDLABEL='' @ volume_id st, ''rd.live.image''] @
           (if truthy_flag (get_hybridpersistent xs)
            then get_live_iso_persistent_boot_options df (get_hybridpersistent_filesystem xs)
            else [])"
  using post_init_fields(4) [OF assms] by simp

theorem live_boot_options_persistent_witness:
  "''root=live:CDLABEL=LIVE123'' \<in> set (live_boot_options sample_config) \<and>
   ''rd.live.image'' \<in> set (live_boot_options sample_config) \<and>
   live_boot_options sample_config = [''root=live:CDLABEL=LIVE123'', ''rd.live.image'']"
  using live_boot_options_persistent [OF sample_config_constructed]
  by (simp add: sample_config_def sample_xml_def)

text \<open>
  C8. For every non-negative number \<open>s\<close> of configured boot timeout seconds, the stored
  timeout, which is the \<^verbatim>\<open>boot_timeout\<close> parameter of both render calls, is \<open>s * 10\<close>; its
  text in a rendered template is the decimal text of \<open>s\<close> followed by a zero.
\<close>

theorem boot_timeout_deciseconds:
  assumes "0 \<le> s" and "get_boot_timeout_seconds bc = s"
    and "post_init xs df bc machine rd ca = Inr st"
  shows "timeout st = s * 10 \<and>
         install_parameters bc st k i ''boot_timeout'' = Some (PInt (s * 10)) \<and>
         live_parameters bc st k i ''boot_timeout'' = Some (PInt (s * 10)) \<and>
         py_str (PInt (s * 10)) = (if s = 0 then ''0'' else str_int s @ ''0'')"
  using post_init_fields(5) [OF assms(3)] assms(2) str_int_times_ten [OF assms(1)]
  by (simp add: install_parameters_def live_parameters_def)

theorem boot_timeout_deciseconds_witness:
  "timeout sample_config = 100 \<and>
   install_parameters sample_base sample_config ''linux'' ''initrd'' ''boot_timeout'' =
     Some (PInt 100) \<and>
   live_parameters sample_base sample_config ''linux'' ''initrd'' ''boot_timeout'' =
     Some (PInt 100) \<and>
   py_str (PInt 100) = ''100''"
proof -
  have s: "get_boot_timeout_seconds sample_base = 10" by (simp add: sample_base_def)
  have d: "str_int 10 = ''10''" by (simp add: str_int_def str_nat.simps)
  show ?thesis
    using boot_timeout_deciseconds [OF _ s sample_config_constructed, of "''linux''" "''initrd''"] d
    by simp
qed



section \<open>Rendering\<close>

lemma rendered_config_rendered:
  "setup_live_image_config sample_base sample_templates sample_fs sample_config
     ''0xffffffff'' ''xen.gz'' ''linux'' ''initrd'' = Returned rendered_config"
  by (simp add: setup_live_image_config_def render_def live_parameters_def sample_base_def
        sample_templates_def sample_config_def rendered_config_def str_int_def str_nat.simps)

lemma setup_install_image_config_render:
  "setup_install_image_config bc tp fs st mbrid hypervisor k i =
     render (install_template_choice tp fs st) (get_install_message_template tp)
       (install_call_parameters bc st hypervisor k i) st"
  by (simp add: setup_install_image_config_def install_template_choice_def
        install_call_parameters_def)

lemma setup_live_image_config_render:
  "setup_live_image_config bc tp fs st mbrid hypervisor k i =
     render (live_template_choice tp fs st) (get_message_template tp)
       (live_call_parameters bc st hypervisor k i) st"
  by (simp add: setup_live_image_config_def live_template_choice_def
        live_call_parameters_def)

lemma template_error_is_template_error: "\<exists>m. template_error e = KiwiTemplateError m"
  by (cases e) simp_all

lemma render_failure:
  assumes "isl (substitute T P) \<or> isl (substitute M P)"
  shows "\<exists>m st'. render T M P st = Raised (KiwiTemplateError m) st' \<and>
           config_message st' = config_message st \<and>
           config st' = (case substitute T P of Inl _ \<Rightarrow> config st | Inr c \<Rightarrow> Some c)"
proof (cases "substitute T P")
  case (Inl e)
  then show ?thesis
    using template_error_is_template_error [of e] by (auto simp: render_def)
next
  case (Inr c)
  with assms obtain e where "substitute M P = Inl e" by (cases "substitute M P") auto
  with Inr show ?thesis
    using template_error_is_template_error [of e] by (auto simp: render_def)
qed

text \<open>
  C1, as the code has it. A call to \<^verbatim>\<open>setup_install_image_config\<close> or
  \<^verbatim>\<open>setup_live_image_config\<close> in which a template substitution fails raises a
  template error and leaves the held message text unchanged. The held configuration
  text is unchanged when it is the configuration template that fails; when the
  configuration template substitutes and the message template fails, the configuration
  text already holds the new rendering.
\<close>

theorem failed_render_keeps_message:
  assumes "isl (substitute T P) \<or> isl (substitute M P)"
    and "call = setup_install_image_config bc tp fs st mbrid hypervisor k i \<and>
           T = install_template_choice tp fs st \<and> M = get_install_message_template tp \<and>
           P = install_call_parameters bc st hypervisor k i
         \<or> call = setup_live_image_config bc tp fs st mbrid hypervisor k i \<and>
           T = live_template_choice tp fs st \<and> M = get_message_template tp \<and>
           P = live_call_parameters bc st hypervisor k i"
  shows "\<exists>m st'. call = Raised (KiwiTemplateError m) st' \<and>
           config_message st' = config_message st \<and>
           config st' = (case substitute T P of Inl _ \<Rightarrow> config st | Inr c \<Rightarrow> Some c)"
  using assms(2) render_failure [OF assms(1), of st]
  by (auto simp: setup_install_image_config_render setup_live_image_config_render)

theorem failed_render_keeps_message_witness:
  "\<exists>m st'. setup_install_image_config sample_base sample_templates sample_fs rendered_config
             ''0xffffffff'' ''xen.gz'' ''linux'' ''initrd'' = Raised (KiwiTemplateError m) st' \<and>
           config_message st' = Some ''Welcome to Live'' \<and>
           config st' = Some ''default Boot_from_Hard_Disk''"
proof -
  let ?T = "install_template_choice sample_templates sample_fs rendered_config"
  let ?M = "get_install_message_template sample_templates"
  let ?P = "install_call_parameters sample_base rendered_config ''xen.gz'' ''linux'' ''initrd''"
  have t: "substitute ?T ?P = Inr ''default Boot_from_Hard_Disk''"
    by (simp add: install_template_choice_def install_call_parameters_def install_parameters_def
          sample_base_def sample_templates_def sample_config_def rendered_config_def)
  have m: "isl (substitute ?M ?P)"
    by (simp add: install_call_parameters_def install_parameters_def
          sample_base_def sample_templates_def sample_config_def rendered_config_def)
  show ?thesis
    using failed_render_keeps_message [of ?T ?P ?M _ sample_base sample_templates sample_fs
            rendered_config "''0xffffffff''" "''xen.gz''" "''linux''" "''initrd''"] m t
    by (simp add: rendered_config_def)
qed

text \<open>
  After a successful live render, an install render whose message template fails
  replaces the held configuration text: the failed call is not without effect.
\<close>

theorem failed_render_overwrites_config:
  "config rendered_config = Some ''timeout 100'' \<and>
   config_message rendered_config = Some ''Welcome to Live'' \<and>
   setup_install_image_config sample_base sample_templates sample_fs rendered_config
     ''0xffffffff'' ''xen.gz'' ''linux'' ''initrd'' =
     Raised (KiwiTemplateError (''KeyError: '' @ [CHR 0x27] @ ''hypervisor'' @ [CHR 0x27]))
       (rendered_config\<lparr>config := Some ''default Boot_from_Hard_Disk''\<rparr>) \<and>
   config (final (setup_install_image_config sample_base sample_templates sample_fs
                    rendered_config ''0xffffffff'' ''xen.gz'' ''linux'' ''initrd''))
     \<noteq> config rendered_config"
  by (simp add: setup_install_image_config_def render_def install_parameters_def sample_base_def
        sample_templates_def sample_config_def rendered_config_def)

text \<open>
  C10. Two calls of \<^verbatim>\<open>setup_install_image_config\<close>, or of \<^verbatim>\<open>setup_live_image_config\<close>, on
  the same state that differ only in \<^verbatim>\<open>mbrid\<close> leave the same state behind and raise
  the same error, if any: the rendered texts do not depend on \<^verbatim>\<open>mbrid\<close>.
\<close>

theorem image_config_ignores_mbrid:
  "setup_install_image_config bc tp fs st mbrid1 hypervisor k i =
     setup_install_image_config bc tp fs st mbrid2 hypervisor k i \<and>
   setup_live_image_config bc tp fs st mbrid1 hypervisor k i =
     setup_live_image_config bc tp fs st mbrid2 hypervisor k i"
  by (simp add: setup_install_image_config_def setup_live_image_config_def)

theorem image_config_ignores_mbrid_witness:
  "setup_install_image_config sample_base sample_templates sample_fs rendered_config
     ''0xffffffff'' ''xen.gz'' ''linux'' ''initrd'' =
   setup_install_image_config sample_base sample_templates sample_fs rendered_config
     ''0x12345678'' ''xen.gz'' ''linux'' ''initrd'' \<and>
   setup_live_image_config sample_base sample_templates sample_fs sample_config
     ''0xffffffff'' ''xen.gz'' ''linux'' ''initrd'' =
   setup_live_image_config sample_base sample_templates sample_fs sample_config
     ''0x12345678'' ''xen.gz'' ''linux'' ''initrd''"
  using image_config_ignores_mbrid [of sample_base sample_templates sample_fs rendered_config
          "''0xffffffff''" "''xen.gz''" "''linux''" "''initrd''" "''0x12345678''"]
        image_config_ignores_mbrid [of sample_base sample_templates sample_fs sample_config
          "''0xffffffff''" "''xen.gz''" "''linux''" "''initrd''" "''0x12345678''"]
  by simp

section \<open>Paths\<close>

lemma rstrip_slash_keep: "p \<noteq> [] \<Longrightarrow> last p \<noteq> CHR ''/'' \<Longrightarrow> rstrip_slash p = p"
  by (cases p rule: rev_cases) (simp_all add: rstrip_slash_def)

lemma rstrip_slash_snoc: "rstrip_slash (p @ ''/'') = rstrip_slash p"
  by (simp add: rstrip_slash_def)

lemma rstrip_slash_idem: "rstrip_slash (rstrip_slash p) = rstrip_slash p"
  by (induction p rule: rev_induct) (simp_all add: rstrip_slash_def)

lemma basename_append:
  "CHR ''/'' \<notin> set name \<Longrightarrow> basename (p @ ''/'' @ name) = name"
proof -
  assume "CHR ''/'' \<notin> set name"
  then have "takeWhile (\<lambda>c. c \<noteq> CHR ''/'') (rev name @ CHR ''/'' # rev p) = rev name"
    by (subst takeWhile_tail) auto
  then show ?thesis by (simp add: basename_def)
qed

lemma dirname_append_isdir:
  "CHR ''/'' \<notin> set name \<Longrightarrow> rstrip_slash (dirname (p @ ''/'' @ name)) = rstrip_slash p"
proof -
  assume "CHR ''/'' \<notin> set name"
  then have "dropWhile (\<lambda>c. c \<noteq> CHR ''/'') (rev name @ CHR ''/'' # rev p) = CHR ''/'' # rev p"
    by (subst dropWhile_append3) auto
  then have "dirname (p @ ''/'' @ name) =
               (if p @ ''/'' \<noteq> replicate (Suc (length p)) CHR ''/''
                then rstrip_slash (p @ ''/'') else p @ ''/'')"
    by (simp add: dirname_def)
  then have "rstrip_slash (dirname (p @ ''/'' @ name)) = rstrip_slash (p @ ''/'')"
    by (simp add: rstrip_slash_idem del: replicate_Suc)
  then show ?thesis
    by (simp only: rstrip_slash_snoc)
qed

lemma path_join_dir:
  "name \<noteq> [] \<Longrightarrow> hd name \<noteq> CHR ''/'' \<Longrightarrow> path_join (p @ ''/'') name = p @ ''/'' @ name"
  by (simp add: path_join_def)

lemma split_last_slash:
  assumes "CHR ''/'' \<notin> set a" "CHR ''/'' \<notin> set b" "x @ ''/'' @ a = y @ ''/'' @ b"
  shows "x = y \<and> a = b"
proof -
  have "basename (x @ ''/'' @ a) = basename (y @ ''/'' @ b)" using assms(3) by simp
  then have "a = b" by (simp only: basename_append [OF assms(1)] basename_append [OF assms(2)])
  then show ?thesis using assms(3) by simp
qed

section \<open>Writing\<close>

lemma open_write_in_dir:
  assumes "rstrip_slash d \<in> dirs fs" "name \<noteq> []" "CHR ''/'' \<notin> set name"
  shows "open_write (d @ ''/'' @ name) c fs =
           (if d @ ''/'' @ name \<in> dirs fs
            then Raised (PyError ''IsADirectoryError''
                   (''[Errno 21] Is a directory: '' @ [CHR 0x27] @ (d @ ''/'' @ name) @ [CHR 0x27])) fs
            else Returned (fs\<lparr>files := (files fs)(d @ ''/'' @ name \<mapsto> c)\<rparr>))"
proof -
  have lst: "last name \<noteq> CHR ''/''" using assms(2,3) by (cases name rule: rev_cases) auto
  have r: "rstrip_slash (d @ ''/'' @ name) = d @ ''/'' @ name"
    using assms(2) lst by (intro rstrip_slash_keep) auto
  show ?thesis
    unfolding open_write_def isdir_def r dirname_append_isdir [OF assms(3)]
    using assms(1) by simp
qed

lemma open_write_returned:
  "open_write p c fs = Returned fs' \<Longrightarrow> fs' = fs\<lparr>files := (files fs)(p \<mapsto> c)\<rparr>"
  by (simp add: open_write_def split: if_splits)

lemma write_config_returns:
  assumes "get_iso_boot_path st @ ''/isolinux.cfg'' \<notin> dirs fs"
    and "get_iso_boot_path st @ ''/isolinux.msg'' \<notin> dirs fs"
    and "truthy (config st) \<or> get_iso_boot_path st \<in> dirs fs"
  shows "\<exists>fs'. write_config st fs = Returned fs'"
proof -
  let ?d = "get_iso_boot_path st"
  have r: "rstrip_slash ?d = ?d"
    by (rule rstrip_slash_keep) (simp_all add: get_iso_boot_path_def)
  have cfg: "?d @ ''/isolinux.cfg'' = ?d @ ''/'' @ ''isolinux.cfg''" by simp
  have msg: "?d @ ''/isolinux.msg'' = ?d @ ''/'' @ ''isolinux.msg''" by simp
  let ?fs0 = "Path_create ?d fs"
  have d0: "dirs ?fs0 = insert ?d (dirs fs)" by (simp add: Path_create_def r)
  have w1: "open_write (?d @ ''/isolinux.cfg'') c ?fs0 =
              Returned (?fs0\<lparr>files := (files ?fs0)(?d @ ''/isolinux.cfg'' \<mapsto> c)\<rparr>)" for c
    unfolding cfg using assms(1)
    by (subst open_write_in_dir) (simp_all add: d0 r)
  have w2: "?d \<in> dirs fs1 \<Longrightarrow> dirs fs1 \<subseteq> insert ?d (dirs fs) \<Longrightarrow>
            \<exists>fs'. open_write (?d @ ''/isolinux.msg'') c fs1 = Returned fs'" for c fs1
    unfolding msg using assms(2)
    by (subst open_write_in_dir) (auto simp: r)
  show ?thesis
  proof (cases "truthy (config st)")
    case True
    then show ?thesis
      using w2 [of "?fs0\<lparr>files := (files ?fs0)(?d @ ''/isolinux.cfg'' \<mapsto> c)\<rparr>" for c]
      by (simp add: write_config_def Let_def w1 d0)
  next
    case False
    then have "?d \<in> dirs fs" using assms(3) by simp
    then show ?thesis
      using False w2 [of fs] by (auto simp: write_config_def Let_def)
  qed
qed

text \<open>
  C2, as the code has it. For each of the two held texts, \<^verbatim>\<open>write\<close> writes the
  corresponding file exactly when that text is neither unset nor empty, and the file then
  holds the text; an unset text and an empty string both leave the file as it was, so
  neither creates it.
\<close>

theorem write_config_creates_files:
  assumes "write_config st fs = Returned fs'"
  shows "files fs' (get_iso_boot_path st @ ''/isolinux.cfg'') =
           (if truthy (config st) then config st
            else files fs (get_iso_boot_path st @ ''/isolinux.cfg'')) \<and>
         files fs' (get_iso_boot_path st @ ''/isolinux.msg'') =
           (if truthy (config_message st) then config_message st
            else files fs (get_iso_boot_path st @ ''/isolinux.msg''))"
proof -
  let ?cfg = "get_iso_boot_path st @ ''/isolinux.cfg''"
  let ?msg = "get_iso_boot_path st @ ''/isolinux.msg''"
  let ?c = "case config st of Some c \<Rightarrow> c | None \<Rightarrow> []"
  let ?m = "case config_message st of Some c \<Rightarrow> c | None \<Rightarrow> []"
  have tc: "truthy (config st) \<Longrightarrow> config st = Some ?c" by (cases "config st") simp_all
  have tm: "truthy (config_message st) \<Longrightarrow> config_message st = Some ?m"
    by (cases "config_message st") simp_all
  obtain fs1 where
    s1: "(if truthy (config st)
          then open_write ?cfg ?c (Path_create (get_iso_boot_path st) fs)
          else Returned fs) = Returned fs1"
    and s2: "(if truthy (config_message st) then open_write ?msg ?m fs1 else Returned fs1) = Returned fs'"
    using assms
    by (cases "if truthy (config st)
          then open_write ?cfg ?c (Path_create (get_iso_boot_path st) fs)
          else Returned fs") (simp_all add: write_config_def Let_def)
  have f1: "files fs1 = (if truthy (config st) then (files fs)(?cfg \<mapsto> ?c) else files fs)"
    using s1 by (auto dest!: open_write_returned simp: Path_create_def split: if_splits)
  have f2: "files fs' = (if truthy (config_message st) then (files fs1)(?msg \<mapsto> ?m) else files fs1)"
    using s2 by (auto dest!: open_write_returned split: if_splits)
  show ?thesis
    unfolding f2 f1 using tc tm by simp
qed

theorem write_config_creates_files_witness:
  "\<exists>fs'. write_config rendered_config sample_fs = Returned fs' \<and>
     files fs' ''/build/root/boot/x86_64/loader/isolinux.cfg'' = Some ''timeout 100'' \<and>
     files fs' ''/build/root/boot/x86_64/loader/isolinux.msg'' = Some ''Welcome to Live''"
proof -
  have "case write_config rendered_config sample_fs of
          Returned _ \<Rightarrow> True | Raised _ _ \<Rightarrow> False"
    by code_simp
  then obtain fs' where r: "write_config rendered_config sample_fs = Returned fs'"
    by (auto split: result.splits)
  show ?thesis
    using write_config_creates_files [OF r] r
    by (simp add: rendered_config_def sample_config_def get_iso_boot_path_def)
qed

text \<open>
  With both held texts the empty string and no \<^verbatim>\<open>isolinux.cfg\<close> on disk, \<^verbatim>\<open>write\<close>
  returns with the filesystem untouched: no empty file is created.
\<close>

theorem empty_text_writes_no_file:
  "config empty_text_config = Some [] \<and> config_message empty_text_config = Some [] \<and>
   files sample_fs ''/build/root/boot/x86_64/loader/isolinux.cfg'' = None \<and>
   files sample_fs ''/build/root/boot/x86_64/loader/isolinux.msg'' = None \<and>
   write_config empty_text_config sample_fs = Returned sample_fs"
  by (simp add: write_config_def empty_text_config_def sample_config_def sample_fs_def
        get_iso_boot_path_def)

section \<open>Staging\<close>

lemma shutil_copy_staged:
  assumes sd: "rstrip_slash sd \<in> dirs fs"
    and name: "name \<noteq> []" "CHR ''/'' \<notin> set name"
    and src: "files fs (b @ ''/'' @ name) = Some c"
    and nodir: "sd @ ''/'' @ name \<notin> dirs fs"
    and diff: "b \<noteq> sd"
  shows "shutil_copy (b @ ''/'' @ name) (sd @ ''/'') fs =
           Returned (fs\<lparr>files := (files fs)(sd @ ''/'' @ name \<mapsto> c)\<rparr>)"
proof -
  have hd: "hd name \<noteq> CHR ''/''" using name by (cases name) auto
  have lst: "last name \<noteq> CHR ''/''" using name by (cases name rule: rev_cases) auto
  have d: "isdir fs (sd @ ''/'')"
    using sd rstrip_slash_snoc [of sd] by (simp add: isdir_def)
  have t: "path_join (sd @ ''/'') (basename (b @ ''/'' @ name)) = sd @ ''/'' @ name"
    unfolding basename_append [OF name(2)] by (rule path_join_dir [OF name(1) hd])
  have r: "rstrip_slash (sd @ ''/'' @ name) = sd @ ''/'' @ name"
    using name lst by (intro rstrip_slash_keep) auto
  have o: "open_write (sd @ ''/'' @ name) c fs =
             Returned (fs\<lparr>files := (files fs)(sd @ ''/'' @ name \<mapsto> c)\<rparr>)"
    unfolding open_write_def isdir_def r dirname_append_isdir [OF name(2)]
    using nodir sd by simp
  show ?thesis
    unfolding shutil_copy_def using d t src diff o by (simp add: Let_def)
qed


lemma copy_from_dirs_frame:
  assumes "rstrip_slash sd \<in> dirs fs"
    and "name \<noteq> []" "CHR ''/'' \<notin> set name"
    and "sd @ ''/'' @ name \<notin> dirs fs"
    and "\<forall>d\<in>set ds. \<exists>b. d = b @ ''/'' \<and> lp @ b \<noteq> sd"
  shows "dirs (final (copy_from_dirs lp (sd @ ''/'') name ds fs)) = dirs fs \<and>
         (\<forall>p. p \<noteq> sd @ ''/'' @ name \<longrightarrow>
              files (final (copy_from_dirs lp (sd @ ''/'') name ds fs)) p = files fs p)"
  using assms
proof (induction ds arbitrary: fs)
  case Nil
  then show ?case by simp
next
  case (Cons d ds)
  from Cons.prems(5) obtain b where b: "d = b @ ''/''" "lp @ b \<noteq> sd" by auto
  have rest: "\<forall>d\<in>set ds. \<exists>b. d = b @ ''/'' \<and> lp @ b \<noteq> sd"
    using Cons.prems(5) by simp
  let ?cand = "(lp @ b) @ ''/'' @ name"
  have cand: "concat [lp, d, name] = ?cand" by (simp add: b)
  show ?case
  proof (cases "path_exists fs ?cand")
    case False
    then have step: "copy_from_dirs lp (sd @ ''/'') name (d # ds) fs =
                       copy_from_dirs lp (sd @ ''/'') name ds fs"
      by (simp only: copy_from_dirs.simps cand Let_def if_False)
    show ?thesis
      unfolding step by (rule Cons.IH [OF Cons.prems(1-4) rest])
  next
    case True
    show ?thesis
    proof (cases "files fs ?cand")
      case None
      then have "shutil_copy ?cand (sd @ ''/'') fs =
                   Raised (PyError (if isdir fs ?cand then ''IsADirectoryError'' else ''FileNotFoundError'')
                     ((if isdir fs ?cand then ''[Errno 21] Is a directory: ''
                       else ''[Errno 2] No such file or directory: '') @ [CHR 0x27] @ ?cand @ [CHR 0x27])) fs"
        by (simp add: shutil_copy_def Let_def)
      with True have "final (copy_from_dirs lp (sd @ ''/'') name (d # ds) fs) = fs"
        by (simp only: copy_from_dirs.simps cand Let_def if_True result.case final.simps)
      then show ?thesis by simp
    next
      case (Some c)
      let ?fs1 = "fs\<lparr>files := (files fs)(sd @ ''/'' @ name \<mapsto> c)\<rparr>"
      have cp: "shutil_copy ?cand (sd @ ''/'') fs = Returned ?fs1"
        by (rule shutil_copy_staged [OF Cons.prems(1-3) Some Cons.prems(4) b(2)])
      have ih: "dirs (final (copy_from_dirs lp (sd @ ''/'') name ds ?fs1)) = dirs ?fs1 \<and>
         (\<forall>p. p \<noteq> sd @ ''/'' @ name \<longrightarrow>
              files (final (copy_from_dirs lp (sd @ ''/'') name ds ?fs1)) p = files ?fs1 p)"
        using Cons.prems(1-4) by (intro Cons.IH rest) simp_all
      have step: "copy_from_dirs lp (sd @ ''/'') name (d # ds) fs =
                    copy_from_dirs lp (sd @ ''/'') name ds ?fs1"
        using True cp by (simp only: copy_from_dirs.simps cand Let_def if_True result.case)
      show ?thesis unfolding step using ih by simp
    qed
  qed
qed




lemma syslinux_file_names_ok:
  "n \<in> set syslinux_file_names \<Longrightarrow> n \<noteq> [] \<and> CHR ''/'' \<notin> set n"
  by (auto simp: syslinux_file_names_def)


lemma copy_from_dirs_returns:
  assumes "rstrip_slash sd \<in> dirs fs"
    and "name \<noteq> []" "CHR ''/'' \<notin> set name"
    and "sd @ ''/'' @ name \<notin> dirs fs"
    and "\<forall>d\<in>set ds. \<exists>b. d = b @ ''/'' \<and> lp @ b \<noteq> sd"
    and "\<forall>d\<in>set ds. files fs (lp @ d @ name) \<noteq> None \<or> lp @ d @ name \<notin> dirs fs"
  shows "\<exists>fs'. copy_from_dirs lp (sd @ ''/'') name ds fs = Returned fs'"
  using assms
proof (induction ds arbitrary: fs)
  case Nil
  then show ?case by simp
next
  case (Cons d ds)
  from Cons.prems(5) obtain b where b: "d = b @ ''/''" "lp @ b \<noteq> sd" by auto
  have rest: "\<forall>d\<in>set ds. \<exists>b. d = b @ ''/'' \<and> lp @ b \<noteq> sd"
    using Cons.prems(5) by simp
  let ?cand = "(lp @ b) @ ''/'' @ name"
  have cand: "concat [lp, d, name] = ?cand" by (simp add: b)
  have lst: "last name \<noteq> CHR ''/''"
    using Cons.prems(2,3) by (cases name rule: rev_cases) auto
  have rc: "rstrip_slash ?cand = ?cand"
    using Cons.prems(2) lst by (intro rstrip_slash_keep) auto
  show ?case
  proof (cases "path_exists fs ?cand")
    case False
    then have step: "copy_from_dirs lp (sd @ ''/'') name (d # ds) fs =
                       copy_from_dirs lp (sd @ ''/'') name ds fs"
      by (simp only: copy_from_dirs.simps cand Let_def if_False)
    show ?thesis
      unfolding step using Cons.prems(6) by (intro Cons.IH [OF Cons.prems(1-4) rest]) simp
  next
    case True
    have "files fs ?cand \<noteq> None"
    proof
      assume none: "files fs ?cand = None"
      with True have "rstrip_slash ?cand \<in> dirs fs"
        by (simp only: path_exists_def isfile_def isdir_def) simp
      then have "?cand \<in> dirs fs" by (simp only: rc)
      with Cons.prems(6) none show False by (simp add: b)
    qed
    then obtain c where c: "files fs ?cand = Some c" by auto
    let ?fs1 = "fs\<lparr>files := (files fs)(sd @ ''/'' @ name \<mapsto> c)\<rparr>"
    have cp: "shutil_copy ?cand (sd @ ''/'') fs = Returned ?fs1"
      by (rule shutil_copy_staged [OF Cons.prems(1-3) c Cons.prems(4) b(2)])
    have step: "copy_from_dirs lp (sd @ ''/'') name (d # ds) fs =
                  copy_from_dirs lp (sd @ ''/'') name ds ?fs1"
      using True cp by (simp only: copy_from_dirs.simps cand Let_def if_True result.case)
    show ?thesis
      unfolding step using Cons.prems(1-4,6) by (intro Cons.IH rest) auto
  qed
qed

lemma copy_syslinux_files_returns:
  assumes "rstrip_slash sd \<in> dirs fs"
    and "\<forall>n\<in>set ns. n \<noteq> [] \<and> CHR ''/'' \<notin> set n \<and> sd @ ''/'' @ n \<notin> dirs fs"
    and "\<forall>d\<in>set ds. \<exists>b. d = b @ ''/'' \<and> lp @ b \<noteq> sd"
    and "\<forall>n\<in>set ns. \<forall>d\<in>set ds. files fs (lp @ d @ n) \<noteq> None \<or> lp @ d @ n \<notin> dirs fs"
  shows "\<exists>fs'. copy_syslinux_files lp (sd @ ''/'') ns ds fs = Returned fs'"
  using assms
proof (induction ns arbitrary: fs)
  case Nil
  then show ?case by simp
next
  case (Cons n ns)
  have n: "n \<noteq> []" "CHR ''/'' \<notin> set n" "sd @ ''/'' @ n \<notin> dirs fs"
    using Cons.prems(2) by simp_all
  obtain fs1 where r1: "copy_from_dirs lp (sd @ ''/'') n ds fs = Returned fs1"
    using copy_from_dirs_returns [OF Cons.prems(1) n Cons.prems(3)] Cons.prems(4) by auto
  have inner: "dirs fs1 = dirs fs"
    "\<And>p. p \<noteq> sd @ ''/'' @ n \<Longrightarrow> files fs1 p = files fs p"
    using copy_from_dirs_frame [OF Cons.prems(1) n Cons.prems(3)] r1 by simp_all
  have keep: "files fs1 (lp @ d @ m) = files fs (lp @ d @ m)"
    if "m \<in> set ns" "d \<in> set ds" for m d
  proof -
    from that(2) Cons.prems(3) obtain b where b: "d = b @ ''/''" "lp @ b \<noteq> sd" by auto
    have m: "CHR ''/'' \<notin> set m" using that(1) Cons.prems(2) by simp
    have "(lp @ b) @ ''/'' @ m \<noteq> sd @ ''/'' @ n"
      using split_last_slash [OF m n(2)] b(2) by blast
    then show ?thesis using inner(2) [of "(lp @ b) @ ''/'' @ m"] by (simp add: b)
  qed
  have "\<exists>fs'. copy_syslinux_files lp (sd @ ''/'') ns ds fs1 = Returned fs'"
    using Cons.prems by (intro Cons.IH) (simp_all add: inner(1) keep)
  then show ?case using r1 by simp
qed

lemma stage_syslinux_files_returns:
  assumes "\<forall>n\<in>set syslinux_file_names. \<forall>d\<in>set syslinux_dirs.
             files fs (lookup_path @ d @ n) \<noteq> None \<or> lookup_path @ d @ n \<notin> dirs fs"
  shows "\<exists>fs'. stage_syslinux_files lookup_path fs = Returned fs'"
proof -
  let ?sd = "lookup_path @ ''/image/loader''"
  let ?ld = "lookup_path @ ''/image/loader/''"
  let ?fs1 = "Path_create ?ld (Path_wipe ?ld fs)"
  have ld: "?ld = ?sd @ ''/''" by simp
  have rs: "rstrip_slash ?ld = ?sd"
    unfolding ld rstrip_slash_snoc by (rule rstrip_slash_keep) simp_all
  have dirs1: "dirs ?fs1 = insert ?sd {p \<in> dirs fs. \<not> (p = ?sd \<or> prefix (?sd @ ''/'') p)}"
    by (simp only: Path_create_def Path_wipe_def inside_def rs) simp
  have files1: "\<And>p. files ?fs1 p = (if prefix (?sd @ ''/'') p then None else files fs p)"
    by (simp only: Path_create_def Path_wipe_def inside_def rs) simp
  have sd: "rstrip_slash ?sd \<in> dirs ?fs1"
    unfolding dirs1 by (subst rstrip_slash_keep) simp_all
  have ns: "\<forall>n\<in>set syslinux_file_names.
              n \<noteq> [] \<and> CHR ''/'' \<notin> set n \<and> ?sd @ ''/'' @ n \<notin> dirs ?fs1"
    unfolding dirs1 using syslinux_file_names_ok by simp
  have ds: "\<forall>d\<in>set syslinux_dirs. \<exists>b. d = b @ ''/'' \<and> lookup_path @ b \<noteq> ?sd"
    by (simp add: syslinux_dirs_def)
  have cands: "\<forall>n\<in>set syslinux_file_names. \<forall>d\<in>set syslinux_dirs.
                 files ?fs1 (lookup_path @ d @ n) \<noteq> None \<or> lookup_path @ d @ n \<notin> dirs ?fs1"
    unfolding dirs1 files1 using assms by (auto simp: syslinux_dirs_def)
  show ?thesis
    using copy_syslinux_files_returns [OF sd ns ds cands]
    by (simp add: stage_syslinux_files_def Let_def)
qed



text \<open>
  C9. For every \<^verbatim>\<open>mbrid\<close> and \<^verbatim>\<open>lookup_path\<close>, \<^verbatim>\<open>setup_live_boot_images\<close> has exactly the
  effect and the outcome of \<^verbatim>\<open>setup_install_boot_images\<close>.
\<close>

theorem boot_images_equivalent:
  "setup_live_boot_images bc cs st mbrid lookup_arg fs =
   setup_install_boot_images bc cs st mbrid lookup_arg fs"
  by (simp add: setup_live_boot_images_def)

theorem boot_images_equivalent_witness:
  "setup_live_boot_images sample_base sample_commands sample_config ''0xffffffff'' None sample_fs =
   setup_install_boot_images sample_base sample_commands sample_config ''0xffffffff'' None
     sample_fs"
  by (rule boot_images_equivalent)

end
